theory Spec2Isabelle
  imports Main
begin

section \<open>Python values and exceptions\<close>

text \<open>
  The values that travel through the client: JSON documents decoded by the HTTP library,
  request bodies, command arguments. Python's \<open>None\<close> and JSON \<open>null\<close> are the same
  value. A dict keeps its insertion order, so it is an association list read with
  \<open>map_of\<close>. Floating-point numbers are left out: no operation of the client computes
  with one.
\<close>

datatype pyval =
    PNone
  | PBool bool
  | PInt int
  | PStr string
  | PList "pyval list"
  | PDict "(string \<times> pyval) list"

text \<open>
  Exception classes. The first group are Python built-ins, the second the classes of
  \<open>requests.exceptions\<close> (every subclass of \<open>RequestException\<close>, such as Timeout or
  ConnectionError, is \<open>RequestExceptionSub\<close> with its name), the third the four classes
  declared in \<open>client.py\<close>. \<open>OtherException\<close> is any further class derived directly
  from \<open>Exception\<close>. Signals that derive from \<open>BaseException\<close> only (KeyboardInterrupt,
  SystemExit) are not modelled.
\<close>

datatype exc_class =
    Exception
  | ValueError
  | RuntimeError
  | AttributeError
  | OSError
  | OtherException string
  | RequestException
  | RequestExceptionSub string
  | KachyError
  | KachyConnectionError
  | KachyAuthenticationError
  | KachyResponseError

text \<open>An exception object: its class and its message \<open>str(e)\<close>.\<close>

datatype exn = Exn exc_class string

fun exn_class :: "exn \<Rightarrow> exc_class" where
  "exn_class (Exn c m) = c"

fun exn_msg :: "exn \<Rightarrow> string" where
  "exn_msg (Exn c m) = m"

text \<open>The method resolution order of each class: the class itself, then its bases.\<close>

fun mro :: "exc_class \<Rightarrow> exc_class list" where
  "mro Exception = [Exception]"
| "mro ValueError = [ValueError, Exception]"
| "mro RuntimeError = [RuntimeError, Exception]"
| "mro AttributeError = [AttributeError, Exception]"
| "mro OSError = [OSError, Exception]"
| "mro (OtherException n) = [OtherException n, Exception]"
| "mro RequestException = [RequestException, OSError, Exception]"
| "mro (RequestExceptionSub n) = [RequestExceptionSub n, RequestException, OSError, Exception]"
| "mro KachyError = [KachyError, Exception]"
| "mro KachyConnectionError = [KachyConnectionError, KachyError, Exception]"
| "mro KachyAuthenticationError = [KachyAuthenticationError, KachyError, Exception]"
| "mro KachyResponseError = [KachyResponseError, KachyError, Exception]"

definition issubclass :: "exc_class \<Rightarrow> exc_class \<Rightarrow> bool" where
  "issubclass c d = (d \<in> set (mro c))"

text \<open>\<open>isinstance(e, d)\<close>: what an \<open>except d\<close> clause tests.\<close>

definition isinstance :: "exn \<Rightarrow> exc_class \<Rightarrow> bool" where
  "isinstance e d = issubclass (exn_class e) d"

subsection \<open>Strings\<close>

text \<open>\<open>str(n)\<close> for an integer: its decimal digits, with a minus sign when negative.\<close>

definition digit_char :: "nat \<Rightarrow> char" where
  "digit_char d = char_of (48 + d)"

fun str_nat :: "nat \<Rightarrow> string" where
  "str_nat n = (if n < 10 then [digit_char n] else str_nat (n div 10) @ [digit_char (n mod 10)])"

declare str_nat.simps [simp del]

definition str_int :: "int \<Rightarrow> string" where
  "str_int i = (if i < 0 then CHR ''-'' # str_nat (nat (- i)) else str_nat (nat i))"

text \<open>\<open>str.upper()\<close>, on the ASCII letters.\<close>

definition upper_char :: "char \<Rightarrow> char" where
  "upper_char c =
     (let n = (of_char c :: nat) in if 97 \<le> n \<and> n \<le> 122 then char_of (n - 32) else c)"

definition upper :: "string \<Rightarrow> string" where
  "upper s = map upper_char s"

definition quote :: char where
  "quote = CHR 0x27"

text \<open>The name Python prints for the type of a value.\<close>

fun type_name :: "pyval \<Rightarrow> string" where
  "type_name PNone = ''NoneType''"
| "type_name (PBool b) = ''bool''"
| "type_name (PInt i) = ''int''"
| "type_name (PStr s) = ''str''"
| "type_name (PList xs) = ''list''"
| "type_name (PDict d) = ''dict''"

definition no_attribute :: "string \<Rightarrow> string \<Rightarrow> exn" where
  "no_attribute tname attr =
     Exn AttributeError
       (quote # tname @ [quote] @ '' object has no attribute '' @ quote # attr @ [quote])"

text \<open>
  \<open>result.get(field, default)\<close>: a dict answers with the stored value or the default;
  any other value has no method \<open>get\<close>, and the attribute access raises.
\<close>

fun dict_get :: "pyval \<Rightarrow> string \<Rightarrow> pyval \<Rightarrow> exn + pyval" where
  "dict_get (PDict d) k dflt = Inr (case map_of d k of None \<Rightarrow> dflt | Some v \<Rightarrow> v)"
| "dict_get v k dflt = Inl (no_attribute (type_name v) ''get'')"

text \<open>\<open>d[k] = v\<close> on a dict of strings: replace in place, or append a new key.\<close>

fun dict_set :: "(string \<times> string) list \<Rightarrow> string \<Rightarrow> string \<Rightarrow> (string \<times> string) list" where
  "dict_set [] k v = [(k, v)]"
| "dict_set ((k', v') # d) k v = (if k' = k then (k, v) # d else (k', v') # dict_set d k v)"

section \<open>Configuration (config.py)\<close>

text \<open>
  The fields of the dataclass. \<open>retry_delay\<close>, a float handed to the retry adapter of
  the HTTP library and read nowhere else, is left out.
\<close>

record KachyConfig =
  access_key :: string
  base_url :: string
  timeout :: int
  max_retries :: int
  pool_size :: int
  user_agent :: string
  headers :: "(string \<times> string) list"

definition default_headers :: "string \<Rightarrow> (string \<times> string) list" where
  "default_headers ua =
     [(''User-Agent'', ua), (''Accept'', ''application/json''),
      (''Content-Type'', ''application/json'')]"

text \<open>
  Construction: the generated initialiser stores the fields (their defaults from the
  environment already resolved), then \<open>__post_init__\<close> runs. The credential may be
  \<open>None\<close> at run time, which \<open>not self.access_key\<close> treats like the empty string.
\<close>

definition KachyConfig_init ::
  "string option \<Rightarrow> string \<Rightarrow> int \<Rightarrow> int \<Rightarrow> int \<Rightarrow> string \<Rightarrow> (string \<times> string) list
     \<Rightarrow> exn + KachyConfig" where
  "KachyConfig_init key url tmo retries pool ua hdrs =
     (case key of
        None \<Rightarrow> Inl (Exn ValueError ''KACHY_ACCESS_KEY is required'')
      | Some k \<Rightarrow>
          if k = [] then Inl (Exn ValueError ''KACHY_ACCESS_KEY is required'')
          else Inr \<lparr>access_key = k, base_url = url, timeout = tmo, max_retries = retries,
                    pool_size = pool, user_agent = ua,
                    headers = (if hdrs = [] then default_headers ua else hdrs)\<rparr>)"

section \<open>Transport (client.py)\<close>

text \<open>What \<open>session.request\<close> is called with.\<close>

record request =
  req_method :: string
  req_url :: string
  req_headers :: "(string \<times> string) list"
  req_json :: pyval
  req_timeout :: int

text \<open>
  What it returns: the status, the body as text and as bytes, and the outcome of
  \<open>response.json()\<close>, which the HTTP library computes from the body and which may raise.
\<close>

record response =
  status_code :: int
  resp_text :: string
  resp_content :: string
  resp_json :: "exn + pyval"

text \<open>
  The session with its retrying adapter and the remote service are outside the
  repository: a parameter that answers each call, given the calls made before it, with a
  response or an exception. One call of \<open>session.request\<close> is one transport call.
\<close>

type_synonym session = "request list \<Rightarrow> request \<Rightarrow> exn + response"

record world =
  sent :: "request list"
  closed :: bool

record KachyClient =
  config :: KachyConfig

definition get_auth_token :: "KachyClient \<Rightarrow> string" where
  "get_auth_token self = access_key (config self)"

definition build_request :: "KachyClient \<Rightarrow> string \<Rightarrow> string \<Rightarrow> pyval \<Rightarrow> request" where
  "build_request self meth endpoint data =
     \<lparr>req_method = meth,
      req_url = base_url (config self) @ endpoint,
      req_headers = dict_set (headers (config self)) ''Authorization''
                      (''Bearer '' @ get_auth_token self),
      req_json = data,
      req_timeout = timeout (config self)\<rparr>"

text \<open>The body of the \<open>try\<close> block of \<open>_make_request\<close>, after the call has answered.\<close>

definition classify :: "exn + response \<Rightarrow> exn + pyval" where
  "classify outcome =
     (case outcome of
        Inl e \<Rightarrow> Inl e
      | Inr r \<Rightarrow>
          if status_code r = 401 then Inl (Exn KachyAuthenticationError ''Authentication failed'')
          else if status_code r \<ge> 400 then
            Inl (Exn KachyResponseError
                   (''API error '' @ str_int (status_code r) @ '': '' @ resp_text r))
          else if resp_content r \<noteq> [] then resp_json r
          else Inr PNone)"

text \<open>\<open>except requests.exceptions.RequestException as e\<close>: other exceptions pass through.\<close>

definition except_request_exception :: "exn + pyval \<Rightarrow> exn + pyval" where
  "except_request_exception body =
     (case body of
        Inl e \<Rightarrow>
          if isinstance e RequestException
          then Inl (Exn KachyConnectionError (''Request failed: '' @ exn_msg e))
          else Inl e
      | Inr v \<Rightarrow> Inr v)"

definition make_request ::
  "session \<Rightarrow> KachyClient \<Rightarrow> string \<Rightarrow> string \<Rightarrow> pyval \<Rightarrow> world \<Rightarrow> (exn + pyval) \<times> world" where
  "make_request net self meth endpoint data w =
     (let rq = build_request self meth endpoint data
      in (except_request_exception (classify (net (sent w) rq)), w\<lparr>sent := sent w @ [rq]\<rparr>))"

section \<open>Key-value operations (client.py)\<close>

text \<open>\<open>result = self._make_request(...); return result.get(field, default)\<close>.\<close>

definition result_get ::
  "(exn + pyval) \<times> world \<Rightarrow> string \<Rightarrow> pyval \<Rightarrow> (exn + pyval) \<times> world" where
  "result_get r field dflt =
     (case r of
        (Inl e, w) \<Rightarrow> (Inl e, w)
      | (Inr result, w) \<Rightarrow> (dict_get result field dflt, w))"

definition KachyClient_set ::
  "session \<Rightarrow> KachyClient \<Rightarrow> string \<Rightarrow> string \<Rightarrow> int option \<Rightarrow> world \<Rightarrow> (exn + pyval) \<times> world" where
  "KachyClient_set net self key val ex w =
     (let data = [(''key'', PStr key), (''value'', PStr val)];
          data = (case ex of None \<Rightarrow> data | Some n \<Rightarrow> data @ [(''ex'', PInt n)])
      in result_get (make_request net self ''POST'' ''/valkey/set'' (PDict data) w)
           ''success'' (PBool False))"

definition KachyClient_get ::
  "session \<Rightarrow> KachyClient \<Rightarrow> string \<Rightarrow> world \<Rightarrow> (exn + pyval) \<times> world" where
  "KachyClient_get net self key w =
     result_get (make_request net self ''GET'' (''/valkey/get/'' @ key) PNone w) ''value'' PNone"

definition KachyClient_delete ::
  "session \<Rightarrow> KachyClient \<Rightarrow> string \<Rightarrow> world \<Rightarrow> (exn + pyval) \<times> world" where
  "KachyClient_delete net self key w =
     result_get (make_request net self ''DELETE'' (''/valkey/del/'' @ key) PNone w)
       ''deleted'' (PBool False)"

definition KachyClient_exists ::
  "session \<Rightarrow> KachyClient \<Rightarrow> string \<Rightarrow> world \<Rightarrow> (exn + pyval) \<times> world" where
  "KachyClient_exists net self key w =
     result_get (make_request net self ''GET'' (''/valkey/exists/'' @ key) PNone w)
       ''exists'' (PBool False)"

definition KachyClient_expire ::
  "session \<Rightarrow> KachyClient \<Rightarrow> string \<Rightarrow> int \<Rightarrow> world \<Rightarrow> (exn + pyval) \<times> world" where
  "KachyClient_expire net self key seconds w =
     (let data = [(''key'', PStr key), (''seconds'', PInt seconds)]
      in result_get (make_request net self ''POST'' ''/valkey/expire'' (PDict data) w)
           ''success'' (PBool False))"

definition KachyClient_ttl ::
  "session \<Rightarrow> KachyClient \<Rightarrow> string \<Rightarrow> world \<Rightarrow> (exn + pyval) \<times> world" where
  "KachyClient_ttl net self key w =
     result_get (make_request net self ''GET'' (''/valkey/ttl/'' @ key) PNone w)
       ''ttl'' (PInt (- 2))"

definition KachyClient_redis ::
  "session \<Rightarrow> KachyClient \<Rightarrow> string \<Rightarrow> pyval list \<Rightarrow> world \<Rightarrow> (exn + pyval) \<times> world" where
  "KachyClient_redis net self command args w =
     (let data = [(''command'', PStr (upper command)), (''args'', PList args)]
      in result_get (make_request net self ''POST'' ''/valkey/exec'' (PDict data) w)
           ''result'' PNone)"

text \<open>\<open>close\<close>: a session object is always true, so the session is closed.\<close>

definition KachyClient_close :: "KachyClient \<Rightarrow> world \<Rightarrow> pyval \<times> world" where
  "KachyClient_close self w = (PNone, w\<lparr>closed := True\<rparr>)"

section \<open>Pipeline (pipeline.py)\<close>

text \<open>
  A command is the tuple the builders append: the name first, then the arguments. Every
  builder puts a string first, so the tuple is a pair of the name and the rest.
\<close>

type_synonym command = "string \<times> pyval list"

record KachyPipeline =
  client :: KachyClient
  commands :: "command list"

definition KachyClient_pipeline :: "KachyClient \<Rightarrow> KachyPipeline" where
  "KachyClient_pipeline self = \<lparr>client = self, commands = []\<rparr>"

definition opt_int :: "int option \<Rightarrow> pyval" where
  "opt_int ex = (case ex of None \<Rightarrow> PNone | Some n \<Rightarrow> PInt n)"

definition append_command :: "KachyPipeline \<Rightarrow> command \<Rightarrow> KachyPipeline" where
  "append_command self cmd = self\<lparr>commands := commands self @ [cmd]\<rparr>"

definition KachyPipeline_set :: "KachyPipeline \<Rightarrow> string \<Rightarrow> string \<Rightarrow> int option \<Rightarrow> KachyPipeline" where
  "KachyPipeline_set self key val ex =
     append_command self (''SET'', [PStr key, PStr val, opt_int ex])"

definition KachyPipeline_get :: "KachyPipeline \<Rightarrow> string \<Rightarrow> KachyPipeline" where
  "KachyPipeline_get self key = append_command self (''GET'', [PStr key])"

definition KachyPipeline_delete :: "KachyPipeline \<Rightarrow> string \<Rightarrow> KachyPipeline" where
  "KachyPipeline_delete self key = append_command self (''DEL'', [PStr key])"

definition KachyPipeline_exists :: "KachyPipeline \<Rightarrow> string \<Rightarrow> KachyPipeline" where
  "KachyPipeline_exists self key = append_command self (''EXISTS'', [PStr key])"

definition KachyPipeline_expire :: "KachyPipeline \<Rightarrow> string \<Rightarrow> int \<Rightarrow> KachyPipeline" where
  "KachyPipeline_expire self key seconds =
     append_command self (''EXPIRE'', [PStr key, PInt seconds])"

definition KachyPipeline_ttl :: "KachyPipeline \<Rightarrow> string \<Rightarrow> KachyPipeline" where
  "KachyPipeline_ttl self key = append_command self (''TTL'', [PStr key])"

definition KachyPipeline_redis :: "KachyPipeline \<Rightarrow> string \<Rightarrow> pyval list \<Rightarrow> KachyPipeline" where
  "KachyPipeline_redis self command args = append_command self (upper command, args)"

text \<open>One entry of the batch body: \<open>{"command": cmd[0], "args": list(cmd[1:])}\<close>.\<close>

definition batch_entry :: "command \<Rightarrow> pyval" where
  "batch_entry cmd = PDict [(''command'', PStr (fst cmd)), (''args'', PList (snd cmd))]"

definition batch_body :: "command list \<Rightarrow> pyval" where
  "batch_body cmds = PDict [(''commands'', PList (map batch_entry cmds))]"

text \<open>
  \<open>execute\<close>. The \<open>try\<close> body ends in \<open>commands.clear()\<close>; the handler
  \<open>except Exception\<close> clears too and raises the exception again. An exception outside
  \<open>Exception\<close> would leave the handler aside and the commands in place.
\<close>

definition KachyPipeline_execute ::
  "session \<Rightarrow> KachyPipeline \<Rightarrow> world \<Rightarrow> (exn + pyval) \<times> KachyPipeline \<times> world" where
  "KachyPipeline_execute net self w =
     (if commands self = [] then (Inr (PList []), self, w)
      else
        (case result_get
                (make_request net (client self) ''POST'' ''/valkey/pipeline''
                   (batch_body (commands self)) w)
                ''results'' (PList []) of
           (Inr results, w') \<Rightarrow> (Inr results, self\<lparr>commands := []\<rparr>, w')
         | (Inl e, w') \<Rightarrow>
             if isinstance e Exception then (Inl e, self\<lparr>commands := []\<rparr>, w')
             else (Inl e, self, w')))"

section \<open>Convenience layer (__init__.py)\<close>

text \<open>
  The module keeps one global, \<open>_client\<close>, \<open>None\<close> until \<open>init\<close> stores a client. It is
  passed to each function, and \<open>init\<close> returns its new value.
\<close>

definition kachy_init ::
  "string option \<Rightarrow> string \<Rightarrow> int \<Rightarrow> int \<Rightarrow> int \<Rightarrow> string \<Rightarrow> (string \<times> string) list
     \<Rightarrow> KachyClient option \<Rightarrow> (exn + KachyClient) \<times> KachyClient option" where
  "kachy_init key url tmo retries pool ua hdrs g =
     (case KachyConfig_init key url tmo retries pool ua hdrs of
        Inl e \<Rightarrow> (Inl e, g)
      | Inr cfg \<Rightarrow> (Inr \<lparr>config = cfg\<rparr>, Some \<lparr>config = cfg\<rparr>))"

definition not_initialized :: exn where
  "not_initialized = Exn RuntimeError ''Kachy client not initialized. Call kachy.init() first.''"

definition get_client :: "KachyClient option \<Rightarrow> exn + KachyClient" where
  "get_client g = (case g of None \<Rightarrow> Inl not_initialized | Some c \<Rightarrow> Inr c)"

definition kachy_set ::
  "session \<Rightarrow> KachyClient option \<Rightarrow> string \<Rightarrow> string \<Rightarrow> int option \<Rightarrow> world
     \<Rightarrow> (exn + pyval) \<times> world" where
  "kachy_set net g key val ex w =
     (case get_client g of Inl e \<Rightarrow> (Inl e, w) | Inr c \<Rightarrow> KachyClient_set net c key val ex w)"

definition kachy_get ::
  "session \<Rightarrow> KachyClient option \<Rightarrow> string \<Rightarrow> world \<Rightarrow> (exn + pyval) \<times> world" where
  "kachy_get net g key w =
     (case get_client g of Inl e \<Rightarrow> (Inl e, w) | Inr c \<Rightarrow> KachyClient_get net c key w)"

definition kachy_delete ::
  "session \<Rightarrow> KachyClient option \<Rightarrow> string \<Rightarrow> world \<Rightarrow> (exn + pyval) \<times> world" where
  "kachy_delete net g key w =
     (case get_client g of Inl e \<Rightarrow> (Inl e, w) | Inr c \<Rightarrow> KachyClient_delete net c key w)"

definition kachy_exists ::
  "session \<Rightarrow> KachyClient option \<Rightarrow> string \<Rightarrow> world \<Rightarrow> (exn + pyval) \<times> world" where
  "kachy_exists net g key w =
     (case get_client g of Inl e \<Rightarrow> (Inl e, w) | Inr c \<Rightarrow> KachyClient_exists net c key w)"

definition kachy_expire ::
  "session \<Rightarrow> KachyClient option \<Rightarrow> string \<Rightarrow> int \<Rightarrow> world \<Rightarrow> (exn + pyval) \<times> world" where
  "kachy_expire net g key seconds w =
     (case get_client g of
        Inl e \<Rightarrow> (Inl e, w)
      | Inr c \<Rightarrow> KachyClient_expire net c key seconds w)"

definition kachy_ttl ::
  "session \<Rightarrow> KachyClient option \<Rightarrow> string \<Rightarrow> world \<Rightarrow> (exn + pyval) \<times> world" where
  "kachy_ttl net g key w =
     (case get_client g of Inl e \<Rightarrow> (Inl e, w) | Inr c \<Rightarrow> KachyClient_ttl net c key w)"

text \<open>
  \<open>valkey\<close> calls \<open>get_client().valkey(command, *args)\<close>, so the method is looked up by
  name on the client. Class \<open>KachyClient\<close> declares one method that takes a command and
  its arguments, \<open>redis\<close>; a name the class does not declare makes the lookup raise.
\<close>

definition KachyClient_command_method ::
  "string \<Rightarrow> (session \<Rightarrow> KachyClient \<Rightarrow> string \<Rightarrow> pyval list \<Rightarrow> world \<Rightarrow> (exn + pyval) \<times> world) option"
  where
  "KachyClient_command_method name = (if name = ''redis'' then Some KachyClient_redis else None)"

definition kachy_valkey ::
  "session \<Rightarrow> KachyClient option \<Rightarrow> string \<Rightarrow> pyval list \<Rightarrow> world \<Rightarrow> (exn + pyval) \<times> world" where
  "kachy_valkey net g command args w =
     (case get_client g of
        Inl e \<Rightarrow> (Inl e, w)
      | Inr c \<Rightarrow>
          (case KachyClient_command_method ''valkey'' of
             None \<Rightarrow> (Inl (no_attribute ''KachyClient'' ''valkey''), w)
           | Some m \<Rightarrow> m net c command args w))"

definition kachy_pipeline :: "KachyClient option \<Rightarrow> exn + KachyPipeline" where
  "kachy_pipeline g =
     (case get_client g of Inl e \<Rightarrow> Inl e | Inr c \<Rightarrow> Inr (KachyClient_pipeline c))"

text \<open>\<open>close\<close> reads the global itself, behind \<open>if _client\<close>, and returns \<open>None\<close>.\<close>

definition kachy_close :: "KachyClient option \<Rightarrow> world \<Rightarrow> (exn + pyval) \<times> world" where
  "kachy_close g w =
     (case g of
        None \<Rightarrow> (Inr PNone, w)
      | Some c \<Rightarrow> (case KachyClient_close c w of (r, w') \<Rightarrow> (Inr PNone, w')))"

section \<open>Example inputs\<close>

definition example_config :: KachyConfig where
  "example_config =
     \<lparr>access_key = ''k1'', base_url = ''https://api.klache.net'', timeout = 30,
      max_retries = 3, pool_size = 10, user_agent = ''kachy-valkey-python/0.1.0'',
      headers = default_headers ''kachy-valkey-python/0.1.0''\<rparr>"

definition example_client :: KachyClient where
  "example_client = \<lparr>config = example_config\<rparr>"

definition example_world :: world where
  "example_world = \<lparr>sent = [], closed = False\<rparr>"

text \<open>A service that gives every call the same response, and one whose calls all fail.\<close>

definition answering :: "response \<Rightarrow> session" where
  "answering r = (\<lambda>history rq. Inr r)"


text \<open>Status 200 with no body: \<open>response.json()\<close> is not called, and would raise.\<close>

definition empty_response :: response where
  "empty_response =
     \<lparr>status_code = 200, resp_text = [], resp_content = [],
      resp_json = Inl (Exn (RequestExceptionSub ''JSONDecodeError'') ''Expecting value'')\<rparr>"

definition json_response :: "int \<Rightarrow> string \<Rightarrow> pyval \<Rightarrow> response" where
  "json_response status body v =
     \<lparr>status_code = status, resp_text = body, resp_content = body, resp_json = Inr v\<rparr>"



section \<open>Theorems\<close>

subsection \<open>Auxiliary facts\<close>

lemma isinstance_Exception [simp]: "isinstance e Exception"
  by (cases e; cases "exn_class e") (auto simp: isinstance_def issubclass_def)

lemma snd_result_get: "snd (result_get r field dflt) = snd r"
  by (cases r; cases "fst r") (simp_all add: result_get_def)

lemma fst_result_get_Inr:
  "fst r = Inr v \<Longrightarrow> fst (result_get r field dflt) = dict_get v field dflt"
  by (cases r) (simp add: result_get_def)


lemma snd_make_request:
  "snd (make_request net self meth ep data w)
     = w\<lparr>sent := sent w @ [build_request self meth ep data]\<rparr>"
  by (simp add: make_request_def Let_def)

lemma fst_make_request:
  "fst (make_request net self meth ep data w)
     = except_request_exception (classify (net (sent w) (build_request self meth ep data)))"
  by (simp add: make_request_def Let_def)




lemma builders_append:
  "commands (KachyPipeline_set self key val ex)
     = commands self @ [(''SET'', [PStr key, PStr val, opt_int ex])]"
  "commands (KachyPipeline_get self key) = commands self @ [(''GET'', [PStr key])]"
  "commands (KachyPipeline_delete self key) = commands self @ [(''DEL'', [PStr key])]"
  "commands (KachyPipeline_exists self key) = commands self @ [(''EXISTS'', [PStr key])]"
  "commands (KachyPipeline_expire self key seconds)
     = commands self @ [(''EXPIRE'', [PStr key, PInt seconds])]"
  "commands (KachyPipeline_ttl self key) = commands self @ [(''TTL'', [PStr key])]"
  "commands (KachyPipeline_redis self command args) = commands self @ [(upper command, args)]"
  by (simp_all add: KachyPipeline_set_def KachyPipeline_get_def KachyPipeline_delete_def
        KachyPipeline_exists_def KachyPipeline_expire_def KachyPipeline_ttl_def
        KachyPipeline_redis_def append_command_def)

lemma valkey_after_init:
  "kachy_valkey net (Some c) command args w = (Inl (no_attribute ''KachyClient'' ''valkey''), w)"
  by (simp add: kachy_valkey_def get_client_def KachyClient_command_method_def)

lemma upper_get: "upper ''get'' = ''GET''"
  by code_simp

lemma make_request_empty_body:
  "fst (make_request (answering empty_response) self meth ep data w) = Inr PNone"
  by (simp add: fst_make_request answering_def empty_response_def classify_def
        except_request_exception_def)

text \<open>A JSON object that lacks the field gives the default of the operation.\<close>

lemma missing_field_defaults:
  assumes "net (sent w) (build_request self meth ep data) = Inr r"
    and "status_code r < 400" and "resp_content r \<noteq> []"
    and "resp_json r = Inr (PDict d)" and "map_of d field = None"
  shows "fst (result_get (make_request net self meth ep data w) field dflt) = Inr dflt"
  using assms
  by (simp add: fst_result_get_Inr fst_make_request classify_def except_request_exception_def)

subsection \<open>Pipeline\<close>

text \<open>
  C8. A pipeline with no accumulated command: \<open>execute\<close> returns the empty list at once,
  the pipeline is unchanged and no request is sent.
\<close>

theorem C8_execute_empty:
  "commands self = [] \<Longrightarrow> KachyPipeline_execute net self w = (Inr (PList []), self, w)"
  by (simp add: KachyPipeline_execute_def)

theorem C8_execute_empty_witness:
  "commands (KachyClient_pipeline example_client) = []
   \<and> KachyPipeline_execute (answering empty_response) (KachyClient_pipeline example_client)
       example_world
     = (Inr (PList []), KachyClient_pipeline example_client, example_world)"
proof -
  have h: "commands (KachyClient_pipeline example_client) = []"
    by (simp add: KachyClient_pipeline_def)
  from C8_execute_empty [OF h] h show ?thesis by simp
qed





text \<open>
  C10. The \<open>set\<close> builder of the pipeline, called without expiration, appends the command
  \<open>("SET", key, value, None)\<close>: its entry in the batch body has the three arguments key,
  value and null. The \<open>set\<close> operation of the client, called without expiration, sends
  a body with the two keys \<open>key\<close> and \<open>value\<close> and no key \<open>ex\<close>.
\<close>

theorem C10_pipeline_set_without_expiration:
  "commands (KachyPipeline_set self key val None)
     = commands self @ [(''SET'', [PStr key, PStr val, PNone])]
   \<and> batch_entry (last (commands (KachyPipeline_set self key val None)))
     = PDict [(''command'', PStr ''SET''), (''args'', PList [PStr key, PStr val, PNone])]
   \<and> length (snd (last (commands (KachyPipeline_set self key val None)))) = 3
   \<and> sent (snd (KachyClient_set net c key val None w))
     = sent w @ [build_request c ''POST'' ''/valkey/set''
                   (PDict [(''key'', PStr key), (''value'', PStr val)])]
   \<and> map_of [(''key'', PStr key), (''value'', PStr val)] ''ex'' = None"
  by (simp add: KachyPipeline_set_def append_command_def opt_int_def batch_entry_def
        KachyClient_set_def snd_result_get snd_make_request)

subsection \<open>Transport\<close>



subsection \<open>Key-value operations\<close>

text \<open>
  C1. The claim asks each operation to return its default whenever the transport returns,
  an empty body included. For the empty body \<open>_make_request\<close> returns \<open>None\<close>, and
  \<open>None.get(...)\<close> raises AttributeError in each of the seven operations: evaluated here
  at a service that answers status 200 with no body.
\<close>

theorem C1_empty_body_raises:
  "fst (KachyClient_set (answering empty_response) example_client ''a'' ''1'' None
          example_world) = Inl (no_attribute ''NoneType'' ''get'')
   \<and> fst (KachyClient_get (answering empty_response) example_client ''a'' example_world)
       = Inl (no_attribute ''NoneType'' ''get'')
   \<and> fst (KachyClient_delete (answering empty_response) example_client ''a'' example_world)
       = Inl (no_attribute ''NoneType'' ''get'')
   \<and> fst (KachyClient_exists (answering empty_response) example_client ''a'' example_world)
       = Inl (no_attribute ''NoneType'' ''get'')
   \<and> fst (KachyClient_expire (answering empty_response) example_client ''a'' 60
            example_world) = Inl (no_attribute ''NoneType'' ''get'')
   \<and> fst (KachyClient_ttl (answering empty_response) example_client ''a'' example_world)
       = Inl (no_attribute ''NoneType'' ''get'')
   \<and> fst (KachyClient_redis (answering empty_response) example_client ''get'' [PStr ''a'']
            example_world) = Inl (no_attribute ''NoneType'' ''get'')"
  by (simp add: KachyClient_set_def KachyClient_get_def KachyClient_delete_def
        KachyClient_exists_def KachyClient_expire_def KachyClient_ttl_def KachyClient_redis_def
        fst_result_get_Inr make_request_empty_body)

subsection \<open>Configuration\<close>

text \<open>
  C7, as amended. With a non-empty credential and a non-empty headers override, the headers
  of the configuration are the override and nothing else; the three default headers are
  installed only when the override is empty.
\<close>

theorem C7_headers_override:
  "(k \<noteq> [] \<and> hdrs \<noteq> [] \<longrightarrow>
      map_sum id headers (KachyConfig_init (Some k) url tmo retries pool ua hdrs) = Inr hdrs)
   \<and> (k \<noteq> [] \<and> hdrs = [] \<longrightarrow>
      map_sum id headers (KachyConfig_init (Some k) url tmo retries pool ua hdrs)
        = Inr [(''User-Agent'', ua), (''Accept'', ''application/json''),
               (''Content-Type'', ''application/json'')])"
  by (simp add: KachyConfig_init_def default_headers_def)

theorem C7_headers_override_witness:
  "map_sum id headers
     (KachyConfig_init (Some ''k1'') ''https://api.klache.net'' 30 3 10 ''ua''
        [(''X-Trace'', ''1'')]) = Inr [(''X-Trace'', ''1'')]
   \<and> map_sum id headers
     (KachyConfig_init (Some ''k1'') ''https://api.klache.net'' 30 3 10 ''ua'' [])
       = Inr [(''User-Agent'', ''ua''), (''Accept'', ''application/json''),
               (''Content-Type'', ''application/json'')]"
proof -
  have a: "''k1'' \<noteq> [] \<and> [(''X-Trace'', ''1'')] \<noteq> []" by simp
  have b: "''k1'' \<noteq> [] \<and> ([] :: (string \<times> string) list) = []" by simp
  from C7_headers_override [of "''k1''" "[(''X-Trace'', ''1'')]" "''https://api.klache.net''"
          30 3 10 "''ua''"]
       C7_headers_override [of "''k1''" "[]" "''https://api.klache.net'' " 30 3 10 "''ua''"]
       a b
  show ?thesis by simp
qed

text \<open>
  C7 as stated fails: with the override \<open>{"X-Trace": "1"}\<close> the configuration has that
  header alone, and no \<open>Accept\<close> header.
\<close>

theorem C7_defaults_not_merged_counterexample:
  "KachyConfig_init (Some ''k1'') ''https://api.klache.net'' 30 3 10 ''ua''
       [(''X-Trace'', ''1'')]
     = Inr \<lparr>access_key = ''k1'', base_url = ''https://api.klache.net'', timeout = 30,
            max_retries = 3, pool_size = 10, user_agent = ''ua'',
            headers = [(''X-Trace'', ''1'')]\<rparr>
   \<and> map_of [(''X-Trace'', ''1'')] ''Accept'' = None"
  by (simp add: KachyConfig_init_def)




subsection \<open>Convenience layer\<close>

text \<open>
  C5, as amended. With no client registered, \<open>set\<close>, \<open>get\<close>, \<open>delete\<close>, \<open>exists\<close>,
  \<open>expire\<close>, \<open>ttl\<close>, \<open>valkey\<close> and \<open>pipeline\<close> raise the RuntimeError of
  \<open>get_client\<close> and send nothing; \<open>close\<close> returns \<open>None\<close> and changes nothing.
\<close>

theorem C5_not_initialized:
  "kachy_set net None key val ex w = (Inl not_initialized, w)
   \<and> kachy_get net None key w = (Inl not_initialized, w)
   \<and> kachy_delete net None key w = (Inl not_initialized, w)
   \<and> kachy_exists net None key w = (Inl not_initialized, w)
   \<and> kachy_expire net None key seconds w = (Inl not_initialized, w)
   \<and> kachy_ttl net None key w = (Inl not_initialized, w)
   \<and> kachy_valkey net None command args w = (Inl not_initialized, w)
   \<and> kachy_pipeline None = Inl not_initialized
   \<and> kachy_close None w = (Inr PNone, w)
   \<and> not_initialized
       = Exn RuntimeError ''Kachy client not initialized. Call kachy.init() first.''"
  by (simp add: kachy_set_def kachy_get_def kachy_delete_def kachy_exists_def
        kachy_expire_def kachy_ttl_def kachy_valkey_def kachy_pipeline_def kachy_close_def
        get_client_def not_initialized_def)

text \<open>C5 as stated fails for \<open>close\<close>: with no client registered it returns normally.\<close>

theorem C5_close_counterexample:
  "kachy_close None example_world = (Inr PNone, example_world)"
  by (simp add: kachy_close_def)

text \<open>
  C6. The claim asks \<open>valkey\<close> to delegate to the raw-command operation of the registered
  client. After \<open>init\<close> has registered a client, \<open>valkey("get", "a")\<close> raises
  AttributeError and sends nothing, since the client's method is named \<open>redis\<close>; that
  method, called directly, sends the POST to \<open>/valkey/exec\<close> and returns the \<open>result\<close>
  field.
\<close>

theorem C6_valkey_has_no_method:
  "kachy_init (Some ''k1'') ''https://api.klache.net'' 30 3 10 ''kachy-valkey-python/0.1.0'' []
       None
     = (Inr example_client, Some example_client)
   \<and> kachy_valkey (answering (json_response 200 ''(json)'' (PDict [(''result'', PStr ''1'')])))
       (Some example_client) ''get'' [PStr ''a''] example_world
     = (Inl (no_attribute ''KachyClient'' ''valkey''), example_world)
   \<and> KachyClient_redis (answering (json_response 200 ''(json)'' (PDict [(''result'', PStr ''1'')])))
       example_client ''get'' [PStr ''a''] example_world
     = (Inr (PStr ''1''),
        example_world\<lparr>sent := [build_request example_client ''POST'' ''/valkey/exec''
                                  (PDict [(''command'', PStr ''GET''),
                                          (''args'', PList [PStr ''a''])])]\<rparr>)"
proof -
  have a: "kachy_init (Some ''k1'') ''https://api.klache.net'' 30 3 10
             ''kachy-valkey-python/0.1.0'' [] None
           = (Inr example_client, Some example_client)"
    by (simp add: kachy_init_def KachyConfig_init_def example_client_def example_config_def)
  have b: "KachyClient_redis
             (answering (json_response 200 ''(json)'' (PDict [(''result'', PStr ''1'')])))
             example_client ''get'' [PStr ''a''] example_world
     = (Inr (PStr ''1''),
        example_world\<lparr>sent := [build_request example_client ''POST'' ''/valkey/exec''
                                  (PDict [(''command'', PStr ''GET''),
                                          (''args'', PList [PStr ''a''])])]\<rparr>)"
    by (simp add: KachyClient_redis_def upper_get result_get_def make_request_def Let_def
          answering_def json_response_def classify_def except_request_exception_def
          example_world_def)
  from a b show ?thesis by (simp add: valkey_after_init)
qed

end
